theory Spec2Isabelle
  imports Main
begin

section \<open>Byte strings\<close>

text \<open>
  The protocol works on Python \<open>bytes\<close>. A byte string is a list of 8-bit characters.
  The functions below are the \<open>bytes\<close> methods that \<open>protocol.py\<close> calls.
\<close>

type_synonym bytes = string

definition is_space :: "char \<Rightarrow> bool" where
  \<comment> \<open>the bytes removed by \<open>bytes.strip()\<close>: space, TAB, LF, VT, FF, CR\<close>
  "is_space c = (c = CHR '' '' \<or> c = CHR 0x09 \<or> c = CHR 0x0A \<or> c = CHR 0x0B
                 \<or> c = CHR 0x0C \<or> c = CHR 0x0D)"

definition lstrip :: "bytes \<Rightarrow> bytes" where
  "lstrip b = dropWhile is_space b"

definition strip :: "bytes \<Rightarrow> bytes" where
  "strip b = rev (dropWhile is_space (rev (dropWhile is_space b)))"

fun find_byte :: "char \<Rightarrow> bytes \<Rightarrow> nat option" where
  \<comment> \<open>\<open>b.find(c)\<close>: the first index of \<open>c\<close>; \<open>None\<close> stands for Python's \<open>-1\<close>\<close>
  "find_byte c [] = None"
| "find_byte c (x # xs) = (if x = c then Some 0 else map_option Suc (find_byte c xs))"

definition upper_char :: "char \<Rightarrow> char" where
  "upper_char c =
     (let n = (of_char c :: nat) in if 97 \<le> n \<and> n \<le> 122 then char_of (n - 32) else c)"

definition upper :: "bytes \<Rightarrow> bytes" where
  "upper b = map upper_char b"

definition startswith :: "bytes \<Rightarrow> bytes \<Rightarrow> bool" where
  \<comment> \<open>\<open>startswith b p\<close> is \<open>b.startswith(p)\<close>\<close>
  "startswith b p = (take (length p) b = p)"

definition endswith :: "bytes \<Rightarrow> bytes \<Rightarrow> bool" where
  "endswith b p = (length p \<le> length b \<and> drop (length b - length p) b = p)"

fun split_on :: "char \<Rightarrow> bytes \<Rightarrow> bytes list" where
  \<comment> \<open>\<open>b.split(c)\<close> with an explicit separator: every occurrence splits\<close>
  "split_on c [] = [[]]"
| "split_on c (x # xs) =
     (if x = c then [] # split_on c xs
      else (case split_on c xs of [] \<Rightarrow> [[x]] | w # ws \<Rightarrow> (x # w) # ws))"

fun join :: "bytes \<Rightarrow> bytes list \<Rightarrow> bytes" where
  "join sep [] = []"
| "join sep [x] = x"
| "join sep (x # y # ys) = x @ sep @ join sep (y # ys)"

definition digit_char :: "nat \<Rightarrow> char" where
  "digit_char d = char_of (48 + d)"

fun str_nat :: "nat \<Rightarrow> bytes" where
  "str_nat n = (if n < 10 then [digit_char n] else str_nat (n div 10) @ [digit_char (n mod 10)])"

declare str_nat.simps [simp del]

definition str_int :: "int \<Rightarrow> bytes" where
  \<comment> \<open>\<open>bytes(str(i), 'ascii')\<close>\<close>
  "str_int i = (if i < 0 then CHR ''-'' # str_nat (nat (- i)) else str_nat (nat i))"

definition is_ascii :: "bytes \<Rightarrow> bool" where
  "is_ascii b = list_all (\<lambda>c. \<not> digit7 c) b"

text \<open>
  Python's truth test on the byte strings the session holds: \<open>None\<close> and the empty byte
  string are false.
\<close>

definition truthy :: "bytes option \<Rightarrow> bool" where
  "truthy x = (case x of None \<Rightarrow> False | Some b \<Rightarrow> b \<noteq> [])"

text \<open>
  Modelled from the spec: \<open>const.LINE_TERM\<close>, defined in the module \<open>aiosmtp/const.py\<close>.
  Every response is one or more CRLF-terminated lines, so the terminator is CR LF.
\<close>

definition LINE_TERM :: bytes where
  "LINE_TERM = [CHR 0x0D, CHR 0x0A]"


section \<open>Session state\<close>

datatype conn_state = STATE_CONNECTING | STATE_OPEN | STATE_CLOSED

datatype read_mode = READ_MODE_COMMAND | READ_MODE_DATA

text \<open>
  The attributes of \<open>SmtpProtocol\<close>: field \<open>u_x\<close> is \<open>self._x\<close>. The two futures
  \<open>connection_open\<close> and \<open>connection_closed\<close> are one-shot: the field is true once the
  future has a result.
\<close>

record session =
  u_fqdn :: bytes
  u_max_size :: "int option"
  u_state :: conn_state
  u_read_mode :: read_mode
  u_helo :: "bytes option"
  u_sender :: "bytes option"
  u_recipients :: "bytes list"
  u_allowed_recipients :: "bytes set"
  u_is_esmtp :: bool
  u_message_size :: "int option"
  u_recipients_truncated :: bool
  connection_open :: bool
  connection_closed :: bool

datatype error =
  KeyError | AttributeError | IndexError | InvalidStateError
  | UnicodeDecodeError | UnicodeEncodeError | HeaderParseError

text \<open>
  What a call does besides changing the session: bytes written to the client, and the
  transaction handed to the delivery handler (\<open>handler.message_received\<close>, not awaited).
\<close>

datatype effect = Write bytes | Handoff "bytes option" "bytes list" bytes

text \<open>
  A call either returns or raises; in both cases it has produced effects and left a
  session state behind.
\<close>

datatype outcome = Returned "effect list" session | Raised error "effect list" session

fun effects_of :: "outcome \<Rightarrow> effect list" where
  "effects_of (Returned out s) = out"
| "effects_of (Raised e out s) = out"

fun state_of :: "outcome \<Rightarrow> session" where
  "state_of (Returned out s) = s"
| "state_of (Raised e out s) = s"

fun raised :: "outcome \<Rightarrow> error option" where
  "raised (Returned out s) = None"
| "raised (Raised e out s) = Some e"

fun is_write :: "effect \<Rightarrow> bool" where
  "is_write (Write b) = True"
| "is_write (Handoff a r d) = False"

definition responses :: "outcome \<Rightarrow> nat" where
  \<comment> \<open>how many times the call wrote to the client\<close>
  "responses r = length (filter is_write (effects_of r))"

text \<open>
  The collaborators outside \<open>protocol.py\<close>: the address parser of the standard library
  (\<open>get_angle_addr\<close>, \<open>get_addr_spec\<close>), the delivery handler's \<open>verify\<close>, and the
  conversion \<open>int(str(v, 'ascii'))\<close> (\<open>None\<close> when it raises). They are parameters of the
  model.
\<close>

datatype parsed =
  ParseRaises                 \<comment> \<open>the parser raised \<open>HeaderParseError\<close>\<close>
  | NoAddress bytes           \<comment> \<open>a false address token, and the rest\<close>
  | Address bytes bytes       \<comment> \<open>\<open>address.addr_spec\<close> and the rest\<close>

record collab =
  get_angle_addr :: "bytes \<Rightarrow> parsed"
  get_addr_spec :: "bytes \<Rightarrow> parsed"
  verify :: "bytes \<Rightarrow> bytes option"
  int_of_ascii :: "bytes \<Rightarrow> int option"

definition init :: "bytes \<Rightarrow> int option \<Rightarrow> session" where
  \<comment> \<open>\<open>__init__\<close>: \<open>self._max_size\<close> is assigned \<open>max_size\<close> and then \<open>None\<close>\<close>
  "init fqdn max_size =
     (\<lparr> u_fqdn = fqdn, u_max_size = max_size, u_state = STATE_CONNECTING,
        u_read_mode = READ_MODE_COMMAND, u_helo = None, u_sender = None,
        u_recipients = [], u_allowed_recipients = {}, u_is_esmtp = False,
        u_message_size = None, u_recipients_truncated = False,
        connection_open = False, connection_closed = False \<rparr>)
     \<lparr> u_max_size := None \<rparr>"

definition reset_state :: "session \<Rightarrow> session" where
  "reset_state s =
     s\<lparr> u_read_mode := READ_MODE_COMMAND, u_helo := None, u_sender := None,
        u_recipients := [], u_allowed_recipients := {}, u_is_esmtp := False,
        u_max_size := None, u_message_size := None, u_recipients_truncated := False \<rparr>"

definition client_connected :: "session \<Rightarrow> outcome" where
  "client_connected s =
     (let s1 = s\<lparr> u_state := STATE_OPEN \<rparr>
      in if connection_open s1 then Raised InvalidStateError [] s1
         else Returned [] (s1\<lparr> connection_open := True \<rparr>))"

definition connection_lost :: "session \<Rightarrow> outcome" where
  "connection_lost s =
     (let s1 = s\<lparr> u_state := STATE_CLOSED \<rparr>
      in if connection_closed s1 then Raised InvalidStateError [] s1
         else Returned [] (s1\<lparr> connection_closed := True \<rparr>))"

definition expect_data :: "session \<Rightarrow> session" where
  "expect_data s = s\<lparr> u_read_mode := READ_MODE_DATA \<rparr>"

definition expect_command :: "session \<Rightarrow> session" where
  "expect_command s = s\<lparr> u_read_mode := READ_MODE_COMMAND \<rparr>"

definition send :: "bytes \<Rightarrow> effect list" where
  "send line = [Write (if endswith line LINE_TERM then line else line @ LINE_TERM)]"

definition close :: "session \<Rightarrow> outcome" where
  \<comment> \<open>the two writer calls write no response and their exceptions are swallowed;
      \<open>set_result\<close> on a future that already has a result raises\<close>
  "close s =
     (if connection_closed s then Raised InvalidStateError [] s
      else Returned [] (s\<lparr> connection_closed := True \<rparr>))"


section \<open>Helpers of the command handlers\<close>

definition strip_keyword :: "bytes \<Rightarrow> bytes \<Rightarrow> bytes" where
  "strip_keyword line keyword =
     (if startswith (upper line) (upper keyword) then strip (drop (length keyword) line)
      else [])"

definition parse_addr :: "collab \<Rightarrow> bytes \<Rightarrow> error + (bytes option \<times> bytes)" where
  \<comment> \<open>the result is the pair \<open>(addr, params)\<close>; \<open>addr\<close> is \<open>None\<close>, or a byte string\<close>
  "parse_addr C maybe_addr =
     (if maybe_addr = [] then Inr (Some [], [])
      else if \<not> is_ascii maybe_addr then Inl UnicodeDecodeError
      else
        (case (if startswith (lstrip maybe_addr) ''<'' then get_angle_addr C maybe_addr
               else get_addr_spec C maybe_addr) of
           ParseRaises \<Rightarrow> Inl HeaderParseError
         | NoAddress rest \<Rightarrow> Inr (None, rest)
         | Address a rest \<Rightarrow>
             (if is_ascii a \<and> is_ascii rest then Inr (Some a, rest)
              else Inl UnicodeEncodeError)))"

definition split_command :: "bytes option \<Rightarrow> error + (bytes \<times> bytes option)" where
  \<comment> \<open>\<open>line.strip()\<close> on \<open>None\<close> raises; \<open>arg[ix + 1]\<close> is an integer, and
      \<open>.strip()\<close> on an integer raises\<close>
  "split_command line =
     (case line of
        None \<Rightarrow> Inl AttributeError
      | Some l \<Rightarrow>
          (let arg = strip l
           in case find_byte CHR '' '' arg of
                Some ix \<Rightarrow> (if ix + 1 < length arg then Inl AttributeError else Inl IndexError)
              | None \<Rightarrow> Inr (arg, None)))"

text \<open>
  A Python \<open>dict\<close> with byte-string keys, in insertion order: assigning to a key that is
  present keeps its place.
\<close>

type_synonym params = "(bytes \<times> bytes) list"

fun dict_set :: "bytes \<Rightarrow> bytes \<Rightarrow> params \<Rightarrow> params" where
  "dict_set k v [] = [(k, v)]"
| "dict_set k v ((k', v') # ps) =
     (if k' = k then (k, v) # ps else (k', v') # dict_set k v ps)"

definition dict_del :: "bytes \<Rightarrow> params \<Rightarrow> params" where
  "dict_del k ps = filter (\<lambda>kv. fst kv \<noteq> k) ps"

fun parse_pairs :: "bytes list \<Rightarrow> params \<Rightarrow> params option" where
  \<comment> \<open>the loop of \<open>parse_mail_params\<close>\<close>
  "parse_pairs [] params = Some params"
| "parse_pairs (pair # pairs) params =
     (case find_byte CHR ''='' pair of
        None \<Rightarrow> None
      | Some ix \<Rightarrow> parse_pairs pairs (dict_set (take ix pair) (drop (ix + 1) pair) params))"

definition parse_mail_params :: "bytes \<Rightarrow> params option" where
  "parse_mail_params param_line = parse_pairs (split_on CHR '' '' param_line) []"

definition size_reached :: "int option \<Rightarrow> int \<Rightarrow> bool" where
  \<comment> \<open>\<open>self._max_size and n >= self._max_size\<close>\<close>
  "size_reached mx n = (case mx of None \<Rightarrow> False | Some m \<Rightarrow> m \<noteq> 0 \<and> m \<le> n)"


section \<open>SMTP commands\<close>

definition helo :: "session \<Rightarrow> bytes option \<Rightarrow> outcome" where
  "helo s arg =
     (if truthy (u_helo s) then Returned (send ''503 Duplicate HELO/EHLO'') s
      else if \<not> truthy arg then Returned (send ''501 Syntax: HELO hostname'') s
      else
        (let s1 = s\<lparr> u_is_esmtp := False \<rparr>;
             s2 = s1\<lparr> u_helo := arg \<rparr>
         in Returned (send (''250 '' @ u_fqdn s2)) s2))"

definition ehlo :: "session \<Rightarrow> bytes option \<Rightarrow> outcome" where
  "ehlo s arg =
     (if truthy (u_helo s) then Returned (send ''503 Duplicate HELO/EHLO'') s
      else
        (case split_command arg of
           Inl e \<Rightarrow> Raised e [] s
         | Inr (name, arg') \<Rightarrow>
             (if name = [] then Returned (send ''501 Syntax: EHLO hostname'') s
              else
                (let s1 = s\<lparr> u_is_esmtp := True \<rparr>;
                     s2 = s1\<lparr> u_helo := Some name \<rparr>;
                     resp_lines =
                       [''250-'' @ u_fqdn s2]
                       @ (case u_max_size s2 of
                            None \<Rightarrow> []
                          | Some m \<Rightarrow> (if m \<noteq> 0 then [''250-SIZE '' @ str_int m] else []))
                       @ [''250 HELP'']
                 in Returned (send (join LINE_TERM resp_lines)) s2))))"

definition vrfy :: "collab \<Rightarrow> session \<Rightarrow> bytes option \<Rightarrow> outcome" where
  \<comment> \<open>the first branch writes without a terminator; the last two call \<open>self.send\<close>
      without awaiting it, so the coroutine never runs and nothing is written\<close>
  "vrfy C s arg =
     (case arg of
        None \<Rightarrow> Returned [Write ''501 Syntax: VRFY <''] s
      | Some a \<Rightarrow>
          (if a \<in> u_allowed_recipients s then
             Returned
               (send ''252 Cannot verify user, but will accept message and attempt delivery'') s
           else
             (case verify C a of
                None \<Rightarrow> Returned [] s
              | Some result \<Rightarrow>
                  (if result \<noteq> [] then
                     Returned []
                       (s\<lparr> u_allowed_recipients := insert result (u_allowed_recipients s) \<rparr>)
                   else Returned [] s))))"

definition rset :: "session \<Rightarrow> bytes option \<Rightarrow> outcome" where
  "rset s arg = (let s1 = reset_state s in Returned (send ''250 Ok'') s1)"

text \<open>
  The loop of \<open>mail\<close> over the items of a copy of the parameters. It ends by falling
  through or by \<open>break\<close> (the conversion raised), with the session and the parameters
  as they are then, or by the \<open>return\<close> after the 552 response.
\<close>

datatype loop_exit = Fell_through session params | Returned_552 session

fun mail_params_loop :: "collab \<Rightarrow> params \<Rightarrow> session \<Rightarrow> params \<Rightarrow> loop_exit" where
  "mail_params_loop C [] s params = Fell_through s params"
| "mail_params_loop C ((k, v) # items) s params =
     (if upper k = ''SIZE'' then
        (case int_of_ascii C v of
           None \<Rightarrow> Fell_through s params
         | Some n \<Rightarrow>
             (if size_reached (u_max_size s) n then Returned_552 s
              else mail_params_loop C items (s\<lparr> u_message_size := Some n \<rparr>) (dict_del k params)))
      else mail_params_loop C items s params)"

definition mail :: "collab \<Rightarrow> session \<Rightarrow> bytes option \<Rightarrow> outcome" where
  "mail C s arg =
     (case arg of
        None \<Rightarrow> Returned (send ''501 Syntax: MAIL FROM:<address>'') s
      | Some a \<Rightarrow>
          (if a = [] then Returned (send ''501 Syntax: MAIL FROM:<address>'') s
           else if \<not> truthy (u_helo s) then Returned (send ''503 Error: Send HELO first'') s
           else if truthy (u_sender s) then Returned (send ''503 Error: Nested MAIL command'') s
           else
             (case parse_addr C (strip_keyword a ''FROM:'') of
                Inl e \<Rightarrow> Raised e [] s
              | Inr (addr, params) \<Rightarrow>
                  (if \<not> truthy addr then Returned (send ''501 Syntax: MAIL FROM: <address>'') s
                   else if \<not> u_is_esmtp s \<and> params \<noteq> [] then
                     Returned (send ''501 Syntax: MAIL FROM: <address>'') s
                   else if params \<noteq> [] then
                     (case parse_mail_params params of
                        None \<Rightarrow> Returned (send ''501 Syntax: MAIL FROM: <address>'') s
                      | Some ps \<Rightarrow>
                          (if ps = [] then Returned (send ''501 Syntax: MAIL FROM: <address>'') s
                           else
                             (case mail_params_loop C ps s ps of
                                Returned_552 s1 \<Rightarrow>
                                  Returned
                                    (send ''552 Message size exceeds fixed maximium message size'')
                                    s1
                              | Fell_through s1 ps1 \<Rightarrow>
                                  (if ps1 \<noteq> [] then
                                     Returned (send ''555 Unrecognized extension'') s1
                                   else Returned (send ''250 Ok'') (s1\<lparr> u_sender := addr \<rparr>)))))
                   else Returned (send ''250 Ok'') (s\<lparr> u_sender := addr \<rparr>)))))"

definition rcpt :: "collab \<Rightarrow> session \<Rightarrow> bytes option \<Rightarrow> outcome" where
  "rcpt C s arg =
     (if \<not> truthy (u_helo s) then Returned (send ''503 Error: Send HELO first'') s
      else if \<not> truthy (u_sender s) then Returned (send ''503 Error: Send MAIL first'') s
      else
        (case arg of
           None \<Rightarrow> Returned (send ''501 Syntax: RCPT <address>'') s
         | Some a \<Rightarrow>
             (if a = [] then Returned (send ''501 Syntax: RCPT <address>'') s
              else
                (case parse_addr C (strip_keyword a ''TO:'') of
                   Inl e \<Rightarrow> Raised e [] s
                 | Inr (None, params) \<Rightarrow> Returned (send ''501 Syntax: RCPT <address>'') s
                 | Inr (Some addr, params) \<Rightarrow>
                     (if addr = [] then Returned (send ''501 Syntax: RCPT <address>'') s
                      else if params \<noteq> [] then
                        Returned (send ''555 Unrecognized extension'') s
                      else
                        (case (u_message_size s, u_max_size s) of
                           (Some msz, Some mx) \<Rightarrow>
                             (if msz \<noteq> 0 \<and> mx \<noteq> 0 then
                                (let nrecips = int (length (u_recipients s)) + 1;
                                     total_size = mx * nrecips
                                 in if mx \<le> total_size then
                                      Returned
                                        (send (''552 Channel size limit exceeded: '' @ addr))
                                        (s\<lparr> u_recipients_truncated := True \<rparr>)
                                    else
                                      Returned (send ''250 Ok'')
                                        (s\<lparr> u_recipients := u_recipients s @ [addr] \<rparr>))
                              else
                                Returned (send ''250 Ok'')
                                  (s\<lparr> u_recipients := u_recipients s @ [addr] \<rparr>))
                         | _ \<Rightarrow>
                             Returned (send ''250 Ok'')
                               (s\<lparr> u_recipients := u_recipients s @ [addr] \<rparr>)))))))"

definition data :: "session \<Rightarrow> bytes option \<Rightarrow> outcome" where
  "data s arg =
     (if truthy arg then Returned (send ''501 Syntax: Data'') s
      else if \<not> truthy (u_helo s) then Returned (send ''503 Error: Send HELO first'') s
      else if \<not> truthy (u_sender s) then Returned (send ''503 Error: Send MAIL first'') s
      else if u_recipients s = [] then Returned (send ''503 Error: Need RCPT command'') s
      else Returned (send ''354 End data with <CRLF>.<CRLF>'') (expect_data s))"

definition noop :: "session \<Rightarrow> bytes option \<Rightarrow> outcome" where
  "noop s arg =
     (if truthy arg then Returned (send ''501 Syntax: NOOP'') s
      else Returned (send ''250 Ok'') s)"

definition quit :: "session \<Rightarrow> bytes option \<Rightarrow> outcome" where
  "quit s arg =
     (if truthy arg then Returned (send ''501 Syntax: QUIT'') s
      else
        (case close s of
           Returned out s1 \<Rightarrow> Returned (send ''221 Ok'' @ out) s1
         | Raised e out s1 \<Rightarrow> Raised e (send ''221 Ok'' @ out) s1))"

definition expn :: "session \<Rightarrow> bytes option \<Rightarrow> outcome" where
  "expn s arg = Returned (send ''502 Unimplemented'') s"


section \<open>Dispatch, data phase and the session loop\<close>

datatype command = HELO | EHLO | VRFY | EXPN | RSET | MAIL | RCPT | DATA | NOOP | QUIT

definition COMMANDS :: "bytes \<Rightarrow> command option" where
  "COMMANDS =
     map_of
       [(''HELO'', HELO), (''EHLO'', EHLO), (''VRFY'', VRFY), (''EXPN'', EXPN),
        (''RSET'', RSET), (''MAIL'', MAIL), (''RCPT'', RCPT), (''DATA'', DATA),
        (''NOOP'', NOOP), (''QUIT'', QUIT)]"

fun call :: "collab \<Rightarrow> command \<Rightarrow> session \<Rightarrow> bytes option \<Rightarrow> outcome" where
  "call C HELO s arg = helo s arg"
| "call C EHLO s arg = ehlo s arg"
| "call C VRFY s arg = vrfy C s arg"
| "call C EXPN s arg = expn s arg"
| "call C RSET s arg = rset s arg"
| "call C MAIL s arg = mail C s arg"
| "call C RCPT s arg = rcpt C s arg"
| "call C DATA s arg = data s arg"
| "call C NOOP s arg = noop s arg"
| "call C QUIT s arg = quit s arg"

definition split_line :: "bytes \<Rightarrow> bytes \<times> bytes option" where
  \<comment> \<open>the first lines of \<open>handle_command\<close>: \<open>(cmd, arg)\<close>\<close>
  "split_line line =
     (case find_byte CHR '' '' line of
        None \<Rightarrow> (strip line, None)
      | Some ix \<Rightarrow>
          (if 0 < ix then (take ix line, Some (strip (drop ix line)))
           else (strip line, None)))"

definition handle_command :: "collab \<Rightarrow> session \<Rightarrow> bytes \<Rightarrow> outcome" where
  \<comment> \<open>\<open>self.COMMANDS[...]\<close> raises on a missing key; a function found there is
      always true, so the \<open>else\<close> branch with the 500 response is never taken\<close>
  "handle_command C s line =
     (case split_line line of
        (cmd, arg) \<Rightarrow>
          (case COMMANDS (upper cmd) of
             None \<Rightarrow> Raised KeyError [] s
           | Some method \<Rightarrow> call C method s arg))"

definition handle_data :: "session \<Rightarrow> bytes \<Rightarrow> outcome" where
  "handle_data s dat =
     (if size_reached (u_max_size s) (int (length dat)) then
        Returned (send ''522 Message exceeds fixed maximum size'') s
      else
        (let handoff = Handoff (u_sender s) (u_recipients s) dat;
             response =
               (if u_recipients_truncated s then ''250 Some recipients ok'' else ''250 Ok'');
             s1 = reset_state s
         in Returned (handoff # send response) s1))"

text \<open>
  What the stream reader gives the loop: a line or a data block, or \<open>None\<close> when it
  raises \<open>TooMuchDataError\<close>.
\<close>

definition read_command :: "collab \<Rightarrow> session \<Rightarrow> bytes option \<Rightarrow> outcome" where
  "read_command C s r =
     (case r of
        None \<Rightarrow> Returned (send ''500 Line too long'') s
      | Some line \<Rightarrow> handle_command C s line)"

definition read_data :: "session \<Rightarrow> bytes option \<Rightarrow> outcome" where
  "read_data s r =
     (case r of
        None \<Rightarrow> Returned (send ''552 Message exceeds fixed maximum size'') s
      | Some dat \<Rightarrow> handle_data s dat)"

definition step :: "collab \<Rightarrow> session \<Rightarrow> bytes option \<Rightarrow> outcome" where
  \<comment> \<open>one iteration of the loop of \<open>run\<close>\<close>
  "step C s r =
     (if u_read_mode s = READ_MODE_COMMAND then read_command C s r else read_data s r)"

fun after :: "effect list \<Rightarrow> outcome \<Rightarrow> outcome" where
  "after pre (Returned out s) = Returned (pre @ out) s"
| "after pre (Raised e out s) = Raised e (pre @ out) s"

text \<open>
  The loop of \<open>run\<close> on the reads the stream delivers. When the reads are used up the
  task is cancelled; the loop breaks and \<open>close\<close> is called, as it is when the loop
  finds \<open>connection_closed\<close> done. An exception other than the cancellation leaves
  \<open>run\<close> at once.
\<close>

fun run_loop :: "collab \<Rightarrow> session \<Rightarrow> bytes option list \<Rightarrow> outcome" where
  "run_loop C s [] = close s"
| "run_loop C s (r # rs) =
     (if connection_closed s then close s
      else
        (case step C s r of
           Raised e out s1 \<Rightarrow> Raised e out s1
         | Returned out s1 \<Rightarrow> after out (run_loop C s1 rs)))"

definition run :: "collab \<Rightarrow> session \<Rightarrow> bytes option list \<Rightarrow> outcome" where
  "run C s rs = after (send (''220 '' @ u_fqdn s @ '' ESMTP'')) (run_loop C s rs)"


section \<open>Collaborators for concrete sessions\<close>

text \<open>
  To run the model on concrete lines the collaborators must be concrete. These stand
  in for the library's parser on an address \<open>local@domain\<close>, in angle brackets or bare,
  followed by blanks and parameter text; for a handler that knows one mailbox; and for
  \<open>int\<close> on a string of decimal digits. The general theorems below hold for every
  choice of collaborators.
\<close>

definition simple_angle_addr :: "bytes \<Rightarrow> parsed" where
  "simple_angle_addr v =
     (case lstrip v of
        [] \<Rightarrow> ParseRaises
      | c # rest \<Rightarrow>
          (if c \<noteq> CHR ''<'' then ParseRaises
           else
             (let a = takeWhile (\<lambda>x. x \<noteq> CHR ''>'') rest;
                  r = lstrip (drop 1 (dropWhile (\<lambda>x. x \<noteq> CHR ''>'') rest))
              in if a = [] then Address ''<>'' r else Address a r)))"

definition simple_addr_spec :: "bytes \<Rightarrow> parsed" where
  "simple_addr_spec v =
     (let a = takeWhile (\<lambda>x. \<not> is_space x) (lstrip v);
          r = lstrip (dropWhile (\<lambda>x. \<not> is_space x) (lstrip v))
      in if find_byte CHR ''@'' a = None then ParseRaises else Address a r)"

definition one_mailbox :: "bytes \<Rightarrow> bytes option" where
  "one_mailbox a = (if a = ''<z@y>'' then Some ''z@y'' else None)"

definition is_digit :: "char \<Rightarrow> bool" where
  "is_digit c = (48 \<le> (of_char c :: nat) \<and> (of_char c :: nat) \<le> 57)"

definition decimal :: "bytes \<Rightarrow> int option" where
  "decimal v =
     (if v \<noteq> [] \<and> list_all is_digit v
      then Some (foldl (\<lambda>n c. 10 * n + (int (of_char c) - 48)) 0 v)
      else None)"

definition simple :: collab where
  "simple =
     \<lparr> get_angle_addr = simple_angle_addr, get_addr_spec = simple_addr_spec,
       verify = one_mailbox, int_of_ascii = decimal \<rparr>"


section \<open>Sessions as traces\<close>

text \<open>
  The session that \<open>run\<close> starts on: the constructed session once \<open>client_connected\<close>
  has opened it.
\<close>

definition session_start :: "bytes \<Rightarrow> int option \<Rightarrow> session" where
  "session_start fqdn max_size = state_of (client_connected (init fqdn max_size))"

text \<open>
  One iteration of the loop leaves an event: the read mode it ran in, what the stream
  delivered, and the effects. \<open>exec\<close> runs the loop on a list of reads and gives the
  events and the last session; it gives \<open>None\<close> when the loop does not get through
  all the reads (the connection is closed, or a call raises).
\<close>

type_synonym event = "read_mode \<times> bytes option \<times> effect list"

fun exec :: "collab \<Rightarrow> session \<Rightarrow> bytes option list \<Rightarrow> (event list \<times> session) option" where
  "exec C s [] = Some ([], s)"
| "exec C s (r # rs) =
     (if connection_closed s then None
      else
        (case step C s r of
           Raised e out s1 \<Rightarrow> None
         | Returned out s1 \<Rightarrow>
             (case exec C s1 rs of
                None \<Rightarrow> None
              | Some (tr, s2) \<Rightarrow> Some ((u_read_mode s, r, out) # tr, s2))))"

fun is_250 :: "effect \<Rightarrow> bool" where
  "is_250 (Write w) = (take 3 w = ''250'')"
| "is_250 (Handoff a r d) = False"

definition replied_250 :: "event \<Rightarrow> bool" where
  "replied_250 ev = list_ex is_250 (snd (snd ev))"

definition command_of :: "event \<Rightarrow> command option" where
  \<comment> \<open>the handler that \<open>handle_command\<close> dispatched to\<close>
  "command_of ev =
     (case ev of
        (READ_MODE_COMMAND, Some line, out) \<Rightarrow> COMMANDS (upper (fst (split_line line)))
      | _ \<Rightarrow> None)"

definition greeting_ok :: "event \<Rightarrow> bool" where
  "greeting_ok ev =
     ((command_of ev = Some HELO \<or> command_of ev = Some EHLO) \<and> replied_250 ev)"

definition mail_ok :: "event \<Rightarrow> bool" where
  "mail_ok ev = (command_of ev = Some MAIL \<and> replied_250 ev)"

definition rcpt_ok :: "event \<Rightarrow> bool" where
  "rcpt_ok ev = (command_of ev = Some RCPT \<and> replied_250 ev)"

definition resets :: "event \<Rightarrow> bool" where
  \<comment> \<open>the events that call \<open>reset_state\<close>: RSET, and a data block that is accepted\<close>
  "resets ev = (command_of ev = Some RSET \<or> (fst ev = READ_MODE_DATA \<and> replied_250 ev))"

definition since_reset :: "(event \<Rightarrow> bool) \<Rightarrow> event list \<Rightarrow> bool" where
  \<comment> \<open>an event with \<open>P\<close> lies after the last reset of the trace: in the same transaction\<close>
  "since_reset P tr = list_ex P (takeWhile (\<lambda>e. \<not> resets e) (rev tr))"

definition tx_inv :: "event list \<Rightarrow> session \<Rightarrow> bool" where
  "tx_inv h s =
     ((u_sender s = None \<or> (truthy (u_sender s) \<and> since_reset mail_ok h))
      \<and> (u_helo s = None \<or> (truthy (u_helo s) \<and> since_reset greeting_ok h))
      \<and> (u_sender s = None \<or> u_helo s \<noteq> None))"

definition keeps :: "session \<Rightarrow> session \<Rightarrow> bool" where
  "keeps s s1 = (u_helo s1 = u_helo s \<and> u_sender s1 = u_sender s)"

fun exit_state :: "loop_exit \<Rightarrow> session" where
  "exit_state (Fell_through s ps) = s"
| "exit_state (Returned_552 s) = s"

text \<open>Concrete sessions and events that the theorems are instantiated at.\<close>

definition greeted :: session where
  \<comment> \<open>after \<open>HELO a\<close>\<close>
  "greeted = (session_start ''localhost'' None)\<lparr> u_helo := Some ''a'' \<rparr>"


definition after_mail :: session where
  \<comment> \<open>after \<open>HELO a\<close> and \<open>MAIL FROM:<x@y>\<close>\<close>
  "after_mail =
     (session_start ''localhost'' None)\<lparr> u_helo := Some ''a'', u_sender := Some ''x@y'' \<rparr>"

definition ev_helo :: event where
  "ev_helo = (READ_MODE_COMMAND, Some ''HELO a'', send ''250 localhost'')"

definition ev_mail :: event where
  "ev_mail = (READ_MODE_COMMAND, Some ''MAIL FROM:<x@y>'', send ''250 Ok'')"

definition ev_rcpt :: event where
  "ev_rcpt = (READ_MODE_COMMAND, Some ''RCPT TO:<a@b>'', send ''250 Ok'')"

definition in_transaction :: session where
  "in_transaction =
     (session_start ''localhost'' None)
       \<lparr> u_helo := Some ''a'', u_sender := Some ''x@y'', u_recipients := [''a@b''] \<rparr>"


section \<open>Evaluation rules and lemmas about the handlers\<close>

lemmas bytes_defs = is_space_def lstrip_def strip_def upper_def upper_char_def
  startswith_def endswith_def is_ascii_def truthy_def LINE_TERM_def
  str_int_def digit_char_def

lemmas helper_defs = strip_keyword_def parse_addr_def split_command_def dict_del_def
  parse_mail_params_def size_reached_def send_def split_line_def COMMANDS_def

lemmas session_defs = init_def reset_state_def client_connected_def connection_lost_def
  expect_data_def expect_command_def close_def session_start_def

lemmas command_defs = helo_def ehlo_def vrfy_def rset_def mail_def rcpt_def data_def
  noop_def quit_def expn_def handle_command_def handle_data_def read_command_def
  read_data_def step_def run_def

lemmas simple_defs = simple_def simple_angle_addr_def simple_addr_spec_def one_mailbox_def
  is_digit_def decimal_def

lemma since_reset_snoc:
  "since_reset P (h @ [ev]) = (if resets ev then False else (P ev \<or> since_reset P h))"
  by (simp add: since_reset_def)

lemma mail_params_loop_keeps:
  "u_helo (exit_state (mail_params_loop C items s ps)) = u_helo s
   \<and> u_sender (exit_state (mail_params_loop C items s ps)) = u_sender s"
  by (induction C items s ps rule: mail_params_loop.induct)
     (auto split: option.splits)

lemma loop_fell_through:
  "mail_params_loop C items s ps = Fell_through s1 ps1 \<Longrightarrow>
     u_helo s1 = u_helo s \<and> u_sender s1 = u_sender s"
  using mail_params_loop_keeps [of C items s ps] by simp

lemma loop_returned_552:
  "mail_params_loop C items s ps = Returned_552 s1 \<Longrightarrow>
     u_helo s1 = u_helo s \<and> u_sender s1 = u_sender s"
  using mail_params_loop_keeps [of C items s ps] by simp

lemma is_250_send: "list_ex is_250 (send l) = (take 3 l = ''250'')"
  by (cases l rule: rev_cases) (auto simp: send_def endswith_def LINE_TERM_def take_Cons')

lemma take_3_join: "take 3 (join sep ((a # b # c # x) # ys)) = [a, b, c]"
  by (cases ys) (simp_all add: take_Cons')

lemma helo_effect:
  assumes "helo s arg = Returned out s1"
  shows "if list_ex is_250 out
         then truthy (u_helo s1) \<and> u_sender s1 = u_sender s
         else keeps s s1"
  using assms
  by (auto simp: helo_def keeps_def is_250_send Let_def truthy_def
           split: if_splits option.splits)

lemma ehlo_effect:
  assumes "ehlo s arg = Returned out s1"
  shows "if list_ex is_250 out
         then truthy (u_helo s1) \<and> u_sender s1 = u_sender s
         else keeps s s1"
  using assms
  by (auto simp: ehlo_def keeps_def is_250_send Let_def truthy_def take_3_join
           split: if_splits sum.splits prod.splits)

lemma mail_effect:
  assumes "mail C s arg = Returned out s1"
  shows "if list_ex is_250 out
         then truthy (u_helo s) \<and> u_helo s1 = u_helo s \<and> truthy (u_sender s1)
         else keeps s s1"
  using assms
  by (auto simp: mail_def keeps_def is_250_send
           split: if_splits option.splits sum.splits prod.splits loop_exit.splits
           dest!: loop_fell_through loop_returned_552)

lemma rcpt_effect:
  assumes "rcpt C s arg = Returned out s1"
  shows "keeps s s1 \<and> (if list_ex is_250 out then truthy (u_sender s) else True)"
  using assms
  by (auto simp: rcpt_def keeps_def is_250_send Let_def
           split: if_splits option.splits sum.splits prod.splits)

lemma rset_effect:
  assumes "rset s arg = Returned out s1"
  shows "u_helo s1 = None \<and> u_sender s1 = None"
  using assms by (auto simp: rset_def reset_state_def)

lemma other_effect:
  assumes "call C m s arg = Returned out s1"
    and "m = VRFY \<or> m = EXPN \<or> m = DATA \<or> m = NOOP \<or> m = QUIT"
  shows "keeps s s1"
  using assms
  by (auto simp: vrfy_def expn_def data_def noop_def quit_def close_def keeps_def
                 expect_data_def
           split: if_splits option.splits)

lemma tx_inv_kept:
  assumes "tx_inv h s" and "keeps s s1" and "\<not> resets ev"
  shows "tx_inv (h @ [ev]) s1"
  using assms by (auto simp: tx_inv_def keeps_def since_reset_snoc)

lemma step_data_mode:
  assumes "step C s r = Returned out s1" and "u_read_mode s = READ_MODE_DATA"
  shows "if list_ex is_250 out then u_helo s1 = None \<and> u_sender s1 = None else s1 = s"
  using assms
  by (auto simp: step_def read_data_def handle_data_def is_250_send reset_state_def Let_def
           split: option.splits if_splits)

lemma step_command_mode:
  assumes "step C s r = Returned out s1" and "u_read_mode s = READ_MODE_COMMAND"
  shows "(r = None \<and> s1 = s \<and> \<not> list_ex is_250 out)
         \<or> (\<exists>line m.
               r = Some line \<and> COMMANDS (upper (fst (split_line line))) = Some m
               \<and> call C m s (snd (split_line line)) = Returned out s1)"
  using assms
  by (cases r; cases "split_line (the r)")
     (auto simp: step_def read_command_def handle_command_def is_250_send
           split: option.splits)

lemma step_event:
  assumes st: "step C s r = Returned out s1" and i: "tx_inv h s"
  shows "tx_inv (h @ [(u_read_mode s, r, out)]) s1
         \<and> (if rcpt_ok (u_read_mode s, r, out) then since_reset mail_ok h else True)
         \<and> (if mail_ok (u_read_mode s, r, out) then since_reset greeting_ok h else True)"
proof (cases "u_read_mode s")
  case READ_MODE_DATA
  let ?ev = "(u_read_mode s, r, out)"
  have c: "command_of ?ev = None"
    using READ_MODE_DATA by (simp add: command_of_def)
  have r: "resets ?ev = list_ex is_250 out"
    using READ_MODE_DATA c by (simp add: resets_def replied_250_def)
  have "tx_inv (h @ [?ev]) s1"
  proof (cases "list_ex is_250 out")
    case True
    then show ?thesis
      using step_data_mode [OF st READ_MODE_DATA] by (simp add: tx_inv_def)
  next
    case False
    then have "s1 = s" using step_data_mode [OF st READ_MODE_DATA] by simp
    then show ?thesis using i r False tx_inv_kept [of h s s1 ?ev] by (simp add: keeps_def)
  qed
  then show ?thesis using c by (simp add: rcpt_ok_def mail_ok_def)
next
  case READ_MODE_COMMAND
  let ?ev = "(u_read_mode s, r, out)"
  have rp: "replied_250 ?ev = list_ex is_250 out" by (simp add: replied_250_def)
  from step_command_mode [OF st READ_MODE_COMMAND]
  consider (too_long) "r = None" "s1 = s" "\<not> list_ex is_250 out"
    | (cmd) line m where "r = Some line"
        "COMMANDS (upper (fst (split_line line))) = Some m"
        "call C m s (snd (split_line line)) = Returned out s1"
    by blast
  then show ?thesis
  proof cases
    case too_long
    have c: "command_of ?ev = None"
      using too_long READ_MODE_COMMAND by (simp add: command_of_def)
    have "\<not> resets ?ev" using c READ_MODE_COMMAND by (simp add: resets_def)
    then have "tx_inv (h @ [?ev]) s1"
      using i too_long tx_inv_kept [of h s s1 ?ev] by (simp add: keeps_def)
    then show ?thesis using c by (simp add: rcpt_ok_def mail_ok_def)
  next
    case cmd
    have c: "command_of ?ev = Some m"
      using cmd READ_MODE_COMMAND by (simp add: command_of_def)
    have rs: "resets ?ev = (m = RSET)"
      using c READ_MODE_COMMAND by (simp add: resets_def)
    have g: "greeting_ok ?ev = ((m = HELO \<or> m = EHLO) \<and> list_ex is_250 out)"
      using c rp by (simp add: greeting_ok_def)
    have ml: "mail_ok ?ev = (m = MAIL \<and> list_ex is_250 out)"
      using c rp by (simp add: mail_ok_def)
    have p: "rcpt_ok ?ev = (m = RCPT \<and> list_ex is_250 out)"
      using c rp by (simp add: rcpt_ok_def)
    show ?thesis
    proof (cases m)
      case HELO
      then show ?thesis
        using helo_effect [of s "snd (split_line line)" out s1] cmd(3) i rs g ml p
        by (auto simp: tx_inv_def keeps_def since_reset_snoc truthy_def
                 split: if_splits option.splits)
    next
      case EHLO
      then show ?thesis
        using ehlo_effect [of s "snd (split_line line)" out s1] cmd(3) i rs g ml p
        by (auto simp: tx_inv_def keeps_def since_reset_snoc truthy_def
                 split: if_splits option.splits)
    next
      case RSET
      then show ?thesis
        using rset_effect [of s "snd (split_line line)" out s1] cmd(3) i rs g ml p
        by (auto simp: tx_inv_def)
    next
      case MAIL
      then show ?thesis
        using mail_effect [of C s "snd (split_line line)" out s1] cmd(3) i rs g ml p
        by (auto simp: tx_inv_def keeps_def since_reset_snoc truthy_def
                 split: if_splits option.splits)
    next
      case RCPT
      then show ?thesis
        using rcpt_effect [of C s "snd (split_line line)" out s1] cmd(3) i rs g ml p
        by (auto simp: tx_inv_def keeps_def since_reset_snoc truthy_def
                 split: if_splits option.splits)
    next
      case VRFY
      then show ?thesis
        using other_effect [OF cmd(3)] i rs g ml p tx_inv_kept [of h s s1 ?ev] by simp
    next
      case EXPN
      then show ?thesis
        using other_effect [OF cmd(3)] i rs g ml p tx_inv_kept [of h s s1 ?ev] by simp
    next
      case DATA
      then show ?thesis
        using other_effect [OF cmd(3)] i rs g ml p tx_inv_kept [of h s s1 ?ev] by simp
    next
      case NOOP
      then show ?thesis
        using other_effect [OF cmd(3)] i rs g ml p tx_inv_kept [of h s s1 ?ev] by simp
    next
      case QUIT
      then show ?thesis
        using other_effect [OF cmd(3)] i rs g ml p tx_inv_kept [of h s s1 ?ev] by simp
    qed
  qed
qed

lemma exec_tx_inv:
  assumes "tx_inv h s" and "exec C s rs = Some (tr, s')"
  shows "tx_inv (h @ tr) s'
         \<and> (\<forall>pre e post. tr = pre @ e # post \<longrightarrow>
               (rcpt_ok e \<longrightarrow> since_reset mail_ok (h @ pre))
               \<and> (mail_ok e \<longrightarrow> since_reset greeting_ok (h @ pre)))"
  using assms
proof (induction rs arbitrary: s h tr)
  case Nil
  then show ?case by simp
next
  case (Cons r rs)
  from Cons.prems(2) obtain out s1 tr1 where
    st: "step C s r = Returned out s1" and
    ex: "exec C s1 rs = Some (tr1, s')" and
    tr: "tr = (u_read_mode s, r, out) # tr1"
    by (auto split: if_splits outcome.splits option.splits)
  let ?ev = "(u_read_mode s, r, out)"
  note ev = step_event [OF st Cons.prems(1)]
  then have i1: "tx_inv (h @ [?ev]) s1" by simp
  note ih = Cons.IH [OF i1 ex]
  have "tx_inv (h @ tr) s'" using ih tr by simp
  moreover have "(rcpt_ok e \<longrightarrow> since_reset mail_ok (h @ pre))
         \<and> (mail_ok e \<longrightarrow> since_reset greeting_ok (h @ pre))"
    if d: "tr = pre @ e # post" for pre e post
  proof (cases pre)
    case Nil
    then have "e = ?ev" using d tr by simp
    then show ?thesis using ev Nil by (auto split: if_splits)
  next
    case (Cons x pre1)
    then have d1: "tr1 = pre1 @ e # post" and x: "x = ?ev" using d tr by simp_all
    have "(rcpt_ok e \<longrightarrow> since_reset mail_ok ((h @ [?ev]) @ pre1))
          \<and> (mail_ok e \<longrightarrow> since_reset greeting_ok ((h @ [?ev]) @ pre1))"
      using ih d1 by blast
    then show ?thesis using Cons x by simp
  qed
  ultimately show ?case by blast
qed







lemma tx_inv_start: "tx_inv [] (session_start fqdn mx)"
  by (simp add: tx_inv_def session_start_def client_connected_def init_def)


section \<open>The claims\<close>

subsection \<open>C1: a keyword outside the dispatch table\<close>

text \<open>
  Claim C1 says that a command line whose keyword is not one of the ten commands gets a
  single 500 response, that nothing is raised and that the session is unchanged. In the
  code the table is indexed with \<open>self.COMMANDS[...]\<close>: for every line whose keyword
  (the text before the first space, in upper case) is not in the table,
  \<open>handle_command\<close> raises \<open>KeyError\<close>, writes nothing, and leaves the session as
  it was. The branch that would send the 500 response is never reached.
\<close>

theorem unknown_keyword_raises_KeyError:
  assumes "COMMANDS (upper (fst (split_line line))) = None"
  shows "handle_command C s line = Raised KeyError [] s"
  using assms by (cases "split_line line") (simp add: handle_command_def)

text \<open>The line \<open>BOGUS\<close> is such a line.\<close>

theorem unknown_keyword_raises_KeyError_witness:
  "COMMANDS (upper (fst (split_line ''BOGUS''))) = None
   \<and> handle_command simple (session_start ''localhost'' None) ''BOGUS''
       = Raised KeyError [] (session_start ''localhost'' None)"
  using unknown_keyword_raises_KeyError
          [of "''BOGUS''" simple "session_start ''localhost'' None"]
  by (simp add: bytes_defs helper_defs)


subsection \<open>C2: the SIZE capability line\<close>

text \<open>
  Claim C2 says that the EHLO reply has a line \<open>SIZE n\<close> exactly when a maximum size
  was configured, and that the HELO reply has no capability lines. The constructor
  stores the configured value and then overwrites it with \<open>None\<close>: whatever maximum size
  \<open>m\<close> the session is constructed with, none is recorded, and the reply to
  \<open>EHLO example.com\<close> is the two lines \<open>250-localhost\<close> and \<open>250 HELP\<close>, without a
  SIZE line. The reply to \<open>HELO example.com\<close> is the single line \<open>250 localhost\<close>.
\<close>

theorem ehlo_after_init_has_no_size_line:
  "u_max_size (init fqdn m) = None
   \<and> effects_of (ehlo (session_start ''localhost'' m) (Some ''example.com''))
       = [Write (''250-localhost'' @ LINE_TERM @ ''250 HELP'' @ LINE_TERM)]
   \<and> effects_of (helo (session_start ''localhost'' m) (Some ''example.com''))
       = [Write (''250 localhost'' @ LINE_TERM)]"
  by (simp add: bytes_defs helper_defs session_defs command_defs)


subsection \<open>C3: one response for every command line\<close>

text \<open>
  Claim C3 says that every dispatched command line, every VRFY and every EHLO with a
  space in its argument among them, is answered by exactly one response. In the code,
  \<open>VRFY <z@y>\<close> (an address the handler resolves) and \<open>VRFY <q@y>\<close> (one it does not)
  write nothing at all, because \<open>self.send\<close> is called without being awaited;
  \<open>EHLO a b\<close> raises \<open>AttributeError\<close> in \<open>split_command\<close> and writes nothing; and a
  VRFY without argument writes the bytes \<open>501 Syntax: VRFY <\<close> with no line terminator.
\<close>

theorem vrfy_and_ehlo_write_no_response:
  "responses (handle_command simple (session_start f m) ''VRFY <z@y>'') = 0
   \<and> responses (handle_command simple (session_start f m) ''VRFY <q@y>'') = 0
   \<and> handle_command C (session_start f m) ''EHLO a b''
       = Raised AttributeError [] (session_start f m)
   \<and> handle_command C s ''VRFY'' = Returned [Write ''501 Syntax: VRFY <''] s"
  by (simp add: bytes_defs helper_defs session_defs command_defs simple_defs responses_def)


subsection \<open>C4: a data phase that fails on a size limit\<close>

text \<open>
  Claim C4 says that after a size failure in the data phase the session replies with a
  size-exceeded error and is back in Command mode, without a reset. In the code both
  failures reply and return at once, so the session is left exactly as it was: when the
  stream raises \<open>TooMuchDataError\<close> the reply is 552 and the session is unchanged, when
  the block has reached the maximum size the reply is 522 and the session is unchanged,
  and the session that has accepted \<open>DATA\<close> and then fails on the size is still in Data
  mode.
\<close>

theorem data_size_failure_stays_in_data_mode:
  "read_data s None = Returned (send ''552 Message exceeds fixed maximum size'') s
   \<and> handle_data (s\<lparr> u_max_size := Some 5 \<rparr>) ''hello''
       = Returned (send ''522 Message exceeds fixed maximum size'') (s\<lparr> u_max_size := Some 5 \<rparr>)
   \<and> u_read_mode
        (state_of
          (run_loop simple (session_start ''localhost'' None)
            [Some ''HELO a'', Some ''MAIL FROM:<x@y>'', Some ''RCPT TO:<a@b>'',
             Some ''DATA'', None]))
       = READ_MODE_DATA"
  by (simp add: bytes_defs helper_defs session_defs command_defs simple_defs)


subsection \<open>C5: closing twice\<close>

text \<open>
  Claim C5 says that \<open>close\<close> may be called more than once, also after
  \<open>connection_lost\<close>, and never raises. In the code \<open>close\<close> ends with
  \<open>connection_closed.set_result\<close>, outside the two \<open>try\<close> blocks: a second \<open>close\<close>
  raises \<open>InvalidStateError\<close>, so does \<open>close\<close> after \<open>connection_lost\<close>, and so does
  \<open>connection_lost\<close> after \<open>close\<close>. A session that receives \<open>QUIT\<close> closes in the
  handler, leaves the loop and closes again: \<open>run\<close> ends with \<open>InvalidStateError\<close>.
\<close>

theorem second_close_raises:
  "raised (close (state_of (close s))) = Some InvalidStateError
   \<and> raised (close (state_of (connection_lost s))) = Some InvalidStateError
   \<and> raised (connection_lost (state_of (close s))) = Some InvalidStateError
   \<and> raised (run simple (session_start ''localhost'' None) [Some ''QUIT''])
       = Some InvalidStateError"
  by (simp add: bytes_defs helper_defs session_defs command_defs simple_defs)


subsection \<open>C6: what a reset changes\<close>

text \<open>
  Claim C6 says that a reset clears exactly sender, recipients, declared size,
  truncation flag, extended flag and greeting domain, and does not touch the verified
  addresses. It does: after \<open>VRFY <z@y>\<close> the set holds \<open>z@y\<close>, and after the
  following \<open>RSET\<close> it is empty.
\<close>

theorem reset_empties_allowed_recipients:
  "u_allowed_recipients
     (state_of (handle_command simple (session_start ''localhost'' None) ''VRFY <z@y>''))
     = {''z@y''}
   \<and> u_allowed_recipients
       (state_of
         (handle_command simple
           (state_of (handle_command simple (session_start ''localhost'' None) ''VRFY <z@y>''))
           ''RSET''))
     = {}"
  by (simp add: bytes_defs helper_defs session_defs command_defs simple_defs)

text \<open>
  Claim C6 as amended: a reset (\<open>RSET\<close> with any argument, or a data block that is
  accepted) clears sender, recipients, declared size, truncation flag, extended flag
  and greeting domain, and also empties the verified addresses and sets the read mode to
  Command; the server name, the lifecycle state and the two futures are unchanged. A
  data block that is refused for its size changes nothing.
\<close>

theorem reset_state_frame:
  "u_sender (reset_state s) = None \<and> u_recipients (reset_state s) = []
   \<and> u_message_size (reset_state s) = None \<and> \<not> u_recipients_truncated (reset_state s)
   \<and> \<not> u_is_esmtp (reset_state s) \<and> u_helo (reset_state s) = None
   \<and> u_allowed_recipients (reset_state s) = {}
   \<and> u_read_mode (reset_state s) = READ_MODE_COMMAND
   \<and> u_fqdn (reset_state s) = u_fqdn s \<and> u_state (reset_state s) = u_state s
   \<and> connection_open (reset_state s) = connection_open s
   \<and> connection_closed (reset_state s) = connection_closed s
   \<and> state_of (rset s arg) = reset_state s
   \<and> state_of (handle_data s dat)
       = (if size_reached (u_max_size s) (int (length dat)) then s else reset_state s)"
  by (simp add: reset_state_def rset_def handle_data_def)


subsection \<open>C7: greeting before MAIL before RCPT\<close>

text \<open>
  Claim C7: in every session state that the loop reaches from the start, for every
  choice of collaborators, a sender is set only if a greeting domain is set; and in the
  trace of the session every RCPT answered with 250 comes after a MAIL answered with 250
  in the same transaction (no reset in between), and every MAIL answered with 250 comes
  after a HELO or EHLO answered with 250 in the same transaction.
\<close>

theorem greeting_before_mail_before_rcpt:
  assumes "exec C (session_start fqdn mx) rs = Some (tr, s)"
  shows "(u_sender s \<noteq> None \<longrightarrow> u_helo s \<noteq> None)
         \<and> (\<forall>pre e post. tr = pre @ e # post \<longrightarrow>
               (rcpt_ok e \<longrightarrow> since_reset mail_ok pre)
               \<and> (mail_ok e \<longrightarrow> since_reset greeting_ok pre))"
  using exec_tx_inv [OF tx_inv_start assms] by (auto simp: tx_inv_def)

text \<open>
  The session \<open>HELO a\<close>, \<open>MAIL FROM:<x@y>\<close>, \<open>RCPT TO:<a@b>\<close> runs, every command is
  answered with 250, and the theorem gives the order of the three.
\<close>

theorem greeting_before_mail_before_rcpt_witness:
  "exec simple (session_start ''localhost'' None)
       [Some ''HELO a'', Some ''MAIL FROM:<x@y>'', Some ''RCPT TO:<a@b>'']
     = Some ([ev_helo, ev_mail, ev_rcpt], in_transaction)
   \<and> u_sender in_transaction \<noteq> None \<and> u_helo in_transaction \<noteq> None
   \<and> rcpt_ok ev_rcpt \<and> since_reset mail_ok [ev_helo, ev_mail]
   \<and> mail_ok ev_mail \<and> since_reset greeting_ok [ev_helo]"
proof -
  have run: "exec simple (session_start ''localhost'' None)
       [Some ''HELO a'', Some ''MAIL FROM:<x@y>'', Some ''RCPT TO:<a@b>'']
     = Some ([ev_helo, ev_mail, ev_rcpt], in_transaction)"
    by (simp add: ev_helo_def ev_mail_def ev_rcpt_def in_transaction_def bytes_defs
          helper_defs session_defs command_defs simple_defs)
  note t = greeting_before_mail_before_rcpt [OF run]
  have a: "rcpt_ok ev_rcpt" "mail_ok ev_mail"
    by (simp_all add: rcpt_ok_def mail_ok_def command_of_def replied_250_def ev_mail_def
          ev_rcpt_def bytes_defs helper_defs)
  have b: "u_sender in_transaction \<noteq> None" by (simp add: in_transaction_def)
  from t b have c: "u_helo in_transaction \<noteq> None" by blast
  from t have "[ev_helo, ev_mail, ev_rcpt] = [ev_helo, ev_mail] @ ev_rcpt # [] \<longrightarrow>
      (rcpt_ok ev_rcpt \<longrightarrow> since_reset mail_ok [ev_helo, ev_mail])"
    by blast
  then have d: "since_reset mail_ok [ev_helo, ev_mail]" using a by simp
  from t have "[ev_helo, ev_mail, ev_rcpt] = [ev_helo] @ ev_mail # [ev_rcpt] \<longrightarrow>
      (mail_ok ev_mail \<longrightarrow> since_reset greeting_ok [ev_helo])"
    by blast
  then have e: "since_reset greeting_ok [ev_helo]" using a by simp
  show ?thesis using run a b c d e by simp
qed


subsection \<open>C8: the channel-capacity check of RCPT\<close>




subsection \<open>C9: a MAIL rejected with 555\<close>

text \<open>
  Claim C9 says that a handler that answers 501, 503 or 555 leaves the session as it
  was, and that a MAIL rejected with 555 leaves the declared size unset. In the code
  the SIZE parameter is stored before the other parameters are looked at: after
  \<open>EHLO a\<close>, the line \<open>MAIL FROM:<a@b> SIZE=10 X=1\<close> is answered with 555, no sender is
  set, and the declared size of the session is 10.
\<close>

theorem mail_555_keeps_message_size:
  "handle_command simple
     (state_of (handle_command simple (session_start f m) ''EHLO a''))
     ''MAIL FROM:<a@b> SIZE=10 X=1''
   = Returned (send ''555 Unrecognized extension'')
       ((state_of (handle_command simple (session_start f m) ''EHLO a''))
          \<lparr> u_message_size := Some 10 \<rparr>)"
  by (simp add: bytes_defs helper_defs session_defs command_defs simple_defs)


subsection \<open>C10: MAIL parameters after HELO\<close>

text \<open>
  Claim C10 says that every MAIL with parameter text after the address, in a session
  greeted with HELO, is answered with 501. The check for a nested MAIL comes first:
  after \<open>HELO a\<close> and \<open>MAIL FROM:<x@y>\<close> the extended flag is false, and
  \<open>MAIL FROM:<x@y> SIZE=1\<close> is answered with \<open>503 Error: Nested MAIL command\<close>.
\<close>

theorem nested_mail_with_parameters_gets_503:
  "exec simple (session_start ''localhost'' None) [Some ''HELO a'', Some ''MAIL FROM:<x@y>'']
     = Some ([ev_helo, ev_mail], after_mail)
   \<and> \<not> u_is_esmtp after_mail
   \<and> handle_command simple after_mail ''MAIL FROM:<x@y> SIZE=1''
       = Returned (send ''503 Error: Nested MAIL command'') after_mail"
  by (simp add: ev_helo_def ev_mail_def after_mail_def bytes_defs helper_defs session_defs
        command_defs simple_defs)

text \<open>
  Claim C10 as amended: in a session greeted with HELO (a greeting domain is set and
  the extended flag is false), a MAIL whose argument parses into an address and a
  non-empty parameter text is answered with \<open>501 Syntax: MAIL FROM: <address>\<close>, or,
  when a sender is already set, with \<open>503 Error: Nested MAIL command\<close>; in both cases
  the session, its sender and declared size included, is unchanged.
\<close>

theorem mail_parameters_after_helo_rejected:
  assumes "truthy (u_helo s)" and "\<not> u_is_esmtp s"
    and "parse_addr C (strip_keyword a ''FROM:'') = Inr (addr, params)"
    and "params \<noteq> []"
  shows "mail C s (Some a) =
           Returned
             (send (if truthy (u_sender s) then ''503 Error: Nested MAIL command''
                    else ''501 Syntax: MAIL FROM: <address>''))
             s"
proof -
  have "a \<noteq> []"
    using assms(3,4) by (auto simp: strip_keyword_def parse_addr_def startswith_def upper_def)
  then show ?thesis using assms by (simp add: mail_def)
qed

text \<open>After \<open>HELO a\<close>, the argument \<open>FROM:<a@b> SIZE=10\<close> is refused with 501.\<close>

theorem mail_parameters_after_helo_rejected_witness:
  "truthy (u_helo greeted) \<and> \<not> u_is_esmtp greeted \<and> \<not> truthy (u_sender greeted)
   \<and> parse_addr simple (strip_keyword ''FROM:<a@b> SIZE=10'' ''FROM:'')
       = Inr (Some ''a@b'', ''SIZE=10'')
   \<and> mail simple greeted (Some ''FROM:<a@b> SIZE=10'')
       = Returned (send ''501 Syntax: MAIL FROM: <address>'') greeted"
  using mail_parameters_after_helo_rejected
          [of greeted simple "''FROM:<a@b> SIZE=10''" "Some ''a@b''" "''SIZE=10''"]
  by (simp add: greeted_def bytes_defs helper_defs session_defs simple_defs)

end
